theory Spec2Isabelle
  imports Complex_Main
begin

section \<open>Python values used by the inventory system\<close>

text \<open>
  The module \<^verbatim>\<open>inventory_system.py\<close> is dynamically typed: its functions receive
  arbitrary Python objects and decide by \<^verbatim>\<open>isinstance\<close> and by the exceptions that the
  arithmetic raises. The values modelled here are the scalar ones: \<^verbatim>\<open>None\<close>, \<^verbatim>\<open>bool\<close>,
  \<^verbatim>\<open>int\<close> (unbounded), \<^verbatim>\<open>float\<close> and \<^verbatim>\<open>str\<close>.

  A \<^verbatim>\<open>float\<close> is an IEEE binary64 number: a finite value (kept as the rational it
  denotes; the sign of zero is not kept), an infinity or a NaN. Results of float
  arithmetic are rounded to the nearest representable value, ties to even.
\<close>

datatype pyfloat = Finite rat | PosInf | NegInf | NaN

datatype pyval = PyNone | PyBool bool | PyInt int | PyFloat pyfloat | PyStr string

datatype exn =
    TypeError | OverflowError | KeyError
  | FileNotFoundError | IsADirectoryError | NotADirectoryError | PermissionError
  | UnicodeDecodeError | JSONDecodeError | ValueError

subsection \<open>Rounding to binary64\<close>

definition pow2 :: "int \<Rightarrow> rat" where
  "pow2 e = (if 0 \<le> e then 2 ^ nat e else 1 / 2 ^ nat (- e))"

text \<open>The number of binary digits of a positive integer.\<close>

function bit_length :: "int \<Rightarrow> int" where
  "bit_length n = (if n \<le> 0 then 0 else 1 + bit_length (n div 2))"
  by pat_completeness auto
termination
  by (relation "measure nat") auto

declare bit_length.simps [simp del]

text \<open>For \<open>0 < q\<close>, the exponent \<open>e\<close> with \<open>2^e \<le> q < 2^(e+1)\<close>.\<close>

definition floor_log2 :: "rat \<Rightarrow> int" where
  "floor_log2 q =
     (case quotient_of q of (n, d) \<Rightarrow>
        let e = bit_length n - bit_length d
        in if pow2 e \<le> q then e else e - 1)"

definition round_half_even :: "rat \<Rightarrow> int" where
  "round_half_even x =
     (let f = \<lfloor>x\<rfloor>; r = x - of_int f
      in if r < 1 / 2 then f
         else if 1 / 2 < r then f + 1
         else if even f then f else f + 1)"

text \<open>
  53 bits of precision, least exponent \<open>-1074\<close> (subnormals), overflow to an infinity
  from \<open>2^1024\<close> on.
\<close>

definition fl_round :: "rat \<Rightarrow> pyfloat" where
  "fl_round q =
     (if q = 0 then Finite 0
      else
        let a = \<bar>q\<bar>;
            p = max (floor_log2 a - 52) (- 1074);
            r = of_int (round_half_even (a / pow2 p)) * pow2 p
        in if pow2 1024 \<le> r then (if 0 < q then PosInf else NegInf)
           else Finite (if 0 < q then r else - r))"

text \<open>Conversion of an \<^verbatim>\<open>int\<close> operand in mixed arithmetic: too large an \<^verbatim>\<open>int\<close>
  raises \<^verbatim>\<open>OverflowError\<close>.\<close>

definition float_of_int :: "int \<Rightarrow> exn + pyfloat" where
  "float_of_int n =
     (case fl_round (of_int n) of
        Finite r \<Rightarrow> Inr (Finite r)
      | _ \<Rightarrow> Inl OverflowError)"

fun fl_neg :: "pyfloat \<Rightarrow> pyfloat" where
  "fl_neg (Finite q) = Finite (- q)"
| "fl_neg PosInf = NegInf"
| "fl_neg NegInf = PosInf"
| "fl_neg NaN = NaN"

fun fl_add :: "pyfloat \<Rightarrow> pyfloat \<Rightarrow> pyfloat" where
  "fl_add (Finite a) (Finite b) = fl_round (a + b)"
| "fl_add NaN y = NaN"
| "fl_add x NaN = NaN"
| "fl_add PosInf NegInf = NaN"
| "fl_add NegInf PosInf = NaN"
| "fl_add PosInf y = PosInf"
| "fl_add x PosInf = PosInf"
| "fl_add NegInf y = NegInf"
| "fl_add x NegInf = NegInf"

definition fl_sub :: "pyfloat \<Rightarrow> pyfloat \<Rightarrow> pyfloat" where
  "fl_sub x y = fl_add x (fl_neg y)"

fun fl_lt :: "pyfloat \<Rightarrow> pyfloat \<Rightarrow> bool" where
  "fl_lt (Finite a) (Finite b) = (a < b)"
| "fl_lt NaN y = False"
| "fl_lt x NaN = False"
| "fl_lt x NegInf = False"
| "fl_lt NegInf y = True"
| "fl_lt PosInf y = False"
| "fl_lt x PosInf = True"

fun fl_le :: "pyfloat \<Rightarrow> pyfloat \<Rightarrow> bool" where
  "fl_le (Finite a) (Finite b) = (a \<le> b)"
| "fl_le NaN y = False"
| "fl_le x NaN = False"
| "fl_le NegInf y = True"
| "fl_le x PosInf = True"
| "fl_le x NegInf = False"
| "fl_le PosInf y = False"

subsection \<open>The operators \<^verbatim>\<open>+\<close>, \<^verbatim>\<open>-\<close>, \<^verbatim>\<open><\<close> and \<^verbatim>\<open><=\<close>\<close>

text \<open>\<^verbatim>\<open>bool\<close> is a subclass of \<^verbatim>\<open>int\<close>: \<^verbatim>\<open>True\<close> counts as 1 and \<^verbatim>\<open>False\<close> as 0.\<close>

datatype number = NInt int | NFloat pyfloat

fun as_number :: "pyval \<Rightarrow> number option" where
  "as_number (PyBool b) = Some (NInt (if b then 1 else 0))"
| "as_number (PyInt n) = Some (NInt n)"
| "as_number (PyFloat x) = Some (NFloat x)"
| "as_number PyNone = None"
| "as_number (PyStr s) = None"

fun to_double :: "number \<Rightarrow> exn + pyfloat" where
  "to_double (NInt n) = float_of_int n"
| "to_double (NFloat x) = Inr x"

text \<open>Comparisons between \<^verbatim>\<open>int\<close> and \<^verbatim>\<open>float\<close> are exact: no rounding of the \<^verbatim>\<open>int\<close>.\<close>

fun exact :: "number \<Rightarrow> pyfloat" where
  "exact (NInt n) = Finite (of_int n)"
| "exact (NFloat x) = x"

definition float_op ::
  "(pyfloat \<Rightarrow> pyfloat \<Rightarrow> pyfloat) \<Rightarrow> number \<Rightarrow> number \<Rightarrow> exn + pyval" where
  "float_op f x y =
     (case to_double x of
        Inl e \<Rightarrow> Inl e
      | Inr a \<Rightarrow>
          (case to_double y of
             Inl e \<Rightarrow> Inl e
           | Inr b \<Rightarrow> Inr (PyFloat (f a b))))"

fun num_add :: "number \<Rightarrow> number \<Rightarrow> exn + pyval" where
  "num_add (NInt a) (NInt b) = Inr (PyInt (a + b))"
| "num_add x y = float_op fl_add x y"

fun num_sub :: "number \<Rightarrow> number \<Rightarrow> exn + pyval" where
  "num_sub (NInt a) (NInt b) = Inr (PyInt (a - b))"
| "num_sub x y = float_op fl_sub x y"

text \<open>Strings are ordered lexicographically by character code.\<close>

fun str_lt :: "string \<Rightarrow> string \<Rightarrow> bool" where
  "str_lt [] [] = False"
| "str_lt [] (y # ys) = True"
| "str_lt (x # xs) [] = False"
| "str_lt (x # xs) (y # ys) =
     (if x = y then str_lt xs ys else (of_char x :: nat) < of_char y)"

definition py_add :: "pyval \<Rightarrow> pyval \<Rightarrow> exn + pyval" where
  "py_add a b =
     (case (as_number a, as_number b) of
        (Some x, Some y) \<Rightarrow> num_add x y
      | _ \<Rightarrow>
          (case (a, b) of
             (PyStr s, PyStr t) \<Rightarrow> Inr (PyStr (s @ t))
           | _ \<Rightarrow> Inl TypeError))"

definition py_sub :: "pyval \<Rightarrow> pyval \<Rightarrow> exn + pyval" where
  "py_sub a b =
     (case (as_number a, as_number b) of
        (Some x, Some y) \<Rightarrow> num_sub x y
      | _ \<Rightarrow> Inl TypeError)"

definition py_lt :: "pyval \<Rightarrow> pyval \<Rightarrow> exn + bool" where
  "py_lt a b =
     (case (as_number a, as_number b) of
        (Some x, Some y) \<Rightarrow> Inr (fl_lt (exact x) (exact y))
      | _ \<Rightarrow>
          (case (a, b) of
             (PyStr s, PyStr t) \<Rightarrow> Inr (str_lt s t)
           | _ \<Rightarrow> Inl TypeError))"

definition py_le :: "pyval \<Rightarrow> pyval \<Rightarrow> exn + bool" where
  "py_le a b =
     (case (as_number a, as_number b) of
        (Some x, Some y) \<Rightarrow> Inr (fl_le (exact x) (exact y))
      | _ \<Rightarrow>
          (case (a, b) of
             (PyStr s, PyStr t) \<Rightarrow> Inr (\<not> str_lt t s)
           | _ \<Rightarrow> Inl TypeError))"

text \<open>\<^verbatim>\<open>isinstance(x, str)\<close> and \<^verbatim>\<open>isinstance(x, int)\<close>; the latter accepts \<^verbatim>\<open>bool\<close>.\<close>

fun isinstance_str :: "pyval \<Rightarrow> bool" where
  "isinstance_str (PyStr s) = True"
| "isinstance_str v = False"

fun isinstance_int :: "pyval \<Rightarrow> bool" where
  "isinstance_int (PyInt n) = True"
| "isinstance_int (PyBool b) = True"
| "isinstance_int v = False"

section \<open>The stock table\<close>

text \<open>
  \<^verbatim>\<open>stock_data\<close> is a \<^verbatim>\<open>dict\<close>. A \<^verbatim>\<open>dict\<close> iterates in insertion order, so it is kept as
  an association list without repeated keys. Keys are strings: \<^verbatim>\<open>add_item\<close>, the only
  function that inserts, checks it. Assigning to a key that is present keeps its
  position; assigning to a new key appends it.
\<close>

type_synonym table = "(string \<times> pyval) list"

fun dict_set :: "table \<Rightarrow> string \<Rightarrow> pyval \<Rightarrow> table" where
  "dict_set [] k v = [(k, v)]"
| "dict_set ((k', v') # t) k v =
     (if k' = k then (k, v) # t else (k', v') # dict_set t k v)"

definition dict_del :: "table \<Rightarrow> string \<Rightarrow> table" where
  "dict_del t k = filter (\<lambda>(k', v). k' \<noteq> k) t"

text \<open>Lookup with an arbitrary object: only a string can be equal to a key.\<close>

fun dict_get :: "table \<Rightarrow> pyval \<Rightarrow> pyval option" where
  "dict_get t (PyStr k) = map_of t k"
| "dict_get t v = None"

definition dict_contains :: "table \<Rightarrow> pyval \<Rightarrow> bool" where
  "dict_contains t item = (dict_get t item \<noteq> None)"

definition keys :: "table \<Rightarrow> string list" where
  "keys t = map fst t"

text \<open>A table whose quantities are all of type \<^verbatim>\<open>int\<close>.\<close>

definition int_table :: "(string \<times> int) list \<Rightarrow> table" where
  "int_table kvs = map (\<lambda>(k, n). (k, PyInt n)) kvs"

section \<open>Program state\<close>

text \<open>
  The state is the global \<^verbatim>\<open>stock_data\<close>, the records handed to the \<^verbatim>\<open>logging\<close> module
  (level, format string and arguments, in order of emission) and the file system.

  A path names nothing (and a file can be created there), or one of three things:
  \<^item> a directory;
  \<^item> a place where \<^verbatim>\<open>open\<close> is refused: opening it for reading raises the first
    exception and opening it for writing the second. A missing parent directory
    (\<^verbatim>\<open>FileNotFoundError\<close>), a parent that is a regular file (\<^verbatim>\<open>NotADirectoryError\<close>)
    and a directory that may not be searched or written (\<^verbatim>\<open>PermissionError\<close>) are
    of this kind;
  \<^item> a regular file: the exception that opening it for reading raises, if any, the
    one that opening it for writing raises, if any (both \<^verbatim>\<open>PermissionError\<close> in
    practice), and its bytes, which are the UTF-8 encoding of a text or are not
    UTF-8 at all.
\<close>

datatype level = INFO | WARNING | ERROR

datatype logarg = Val pyval | Exc exn

type_synonym log_record = "level \<times> string \<times> logarg list"

datatype content = Text string | Undecodable

datatype node =
    Directory
  | Refused exn exn
  | RegularFile "exn option" "exn option" content

record state =
  stock_data :: table
  log :: "log_record list"
  files :: "string \<Rightarrow> node option"

definition logging :: "level \<Rightarrow> string \<Rightarrow> logarg list \<Rightarrow> state \<Rightarrow> state" where
  "logging lv fmt args st = st\<lparr>log := log st @ [(lv, fmt, args)]\<rparr>"

text \<open>An entry of the caller's optional \<^verbatim>\<open>logs\<close> list: \<^verbatim>\<open>Added {qty} of {item}\<close>. The
  timestamp in front of it is read from the clock and is not kept.\<close>

datatype sink_entry = Added pyval pyval

section \<open>Operations\<close>

subsection \<open>\<^verbatim>\<open>add_item\<close>\<close>

text \<open>
  Returns the outcome (\<open>Inl\<close> an exception that reaches the caller), the caller's list
  \<^verbatim>\<open>logs\<close> after the call, and the new state. The sum in line 40 is not inside a
  \<^verbatim>\<open>try\<close>: what it raises reaches the caller, before anything is stored. Past the
  type check \<^verbatim>\<open>item\<close> is a \<^verbatim>\<open>str\<close>, so the last branch of the \<open>case\<close> is never taken.
\<close>

definition add_item ::
  "pyval \<Rightarrow> pyval \<Rightarrow> sink_entry list option \<Rightarrow> state
     \<Rightarrow> (exn + unit) \<times> sink_entry list option \<times> state" where
  "add_item item qty logs st =
     (if \<not> isinstance_str item \<or> \<not> isinstance_int qty then
        (Inr (), logs,
         logging WARNING ''Invalid data types for add_item: item=%s, qty=%s''
           [Val item, Val qty] st)
      else
        (case item of
           PyStr k \<Rightarrow>
             (case py_add (case dict_get (stock_data st) item of
                             None \<Rightarrow> PyInt 0 | Some v \<Rightarrow> v) qty of
                Inl e \<Rightarrow> (Inl e, logs, st)
              | Inr v \<Rightarrow>
                  (Inr (),
                   map_option (\<lambda>l. l @ [Added qty item]) logs,
                   logging INFO ''Added %d of %s to inventory.'' [Val qty, Val item]
                     (st\<lparr>stock_data := dict_set (stock_data st) k v\<rparr>)))
         | _ \<Rightarrow> (Inl TypeError, logs, st)))"

subsection \<open>\<^verbatim>\<open>remove_item\<close>\<close>

text \<open>The body of the \<^verbatim>\<open>try\<close> block. The decrement stores its result before the
  comparison with 0 is made.\<close>

definition remove_item_try :: "pyval \<Rightarrow> pyval \<Rightarrow> state \<Rightarrow> (exn + unit) \<times> state" where
  "remove_item_try item qty st =
     (if dict_contains (stock_data st) item then
        (case item of
           PyStr k \<Rightarrow>
             (case dict_get (stock_data st) item of
                None \<Rightarrow> (Inl KeyError, st)
              | Some v \<Rightarrow>
                  (case py_sub v qty of
                     Inl e \<Rightarrow> (Inl e, st)
                   | Inr v' \<Rightarrow>
                       (let st1 = st\<lparr>stock_data := dict_set (stock_data st) k v'\<rparr> in
                        case py_le v' (PyInt 0) of
                          Inl e \<Rightarrow> (Inl e, st1)
                        | Inr True \<Rightarrow>
                            (Inr (),
                             logging INFO ''Removed %s completely from inventory.''
                               [Val item]
                               (st1\<lparr>stock_data := dict_del (stock_data st1) k\<rparr>))
                        | Inr False \<Rightarrow>
                            (Inr (),
                             logging INFO ''Removed %d of %s from inventory.''
                               [Val qty, Val item] st1))))
         | _ \<Rightarrow> (Inl KeyError, st))
      else
        (Inr (),
         logging WARNING ''Attempted to remove non-existent item: %s'' [Val item] st))"

text \<open>\<^verbatim>\<open>except (KeyError, TypeError) as err\<close>: these two are logged and swallowed,
  with the state as the body left it; any other exception reaches the caller.\<close>

definition remove_item :: "pyval \<Rightarrow> pyval \<Rightarrow> state \<Rightarrow> (exn + unit) \<times> state" where
  "remove_item item qty st =
     (case remove_item_try item qty st of
        (Inl e, st') \<Rightarrow>
          (if e = KeyError \<or> e = TypeError then
             (Inr (), logging ERROR ''Error removing item %s: %s'' [Val item, Exc e] st')
           else (Inl e, st'))
      | (Inr u, st') \<Rightarrow> (Inr u, st'))"

subsection \<open>\<^verbatim>\<open>get_qty\<close> and \<^verbatim>\<open>check_low_items\<close>\<close>

text \<open>\<^verbatim>\<open>stock_data.get(item)\<close>: the value, or \<^verbatim>\<open>None\<close> when the key is absent.\<close>

definition get_qty :: "pyval \<Rightarrow> state \<Rightarrow> pyval" where
  "get_qty item st =
     (case dict_get (stock_data st) item of None \<Rightarrow> PyNone | Some v \<Rightarrow> v)"

text \<open>The list comprehension visits the entries in order; a comparison that raises
  ends it.\<close>

fun low_items :: "pyval \<Rightarrow> table \<Rightarrow> exn + string list" where
  "low_items threshold [] = Inr []"
| "low_items threshold ((item, qty) # rest) =
     (case py_lt qty threshold of
        Inl e \<Rightarrow> Inl e
      | Inr b \<Rightarrow>
          (case low_items threshold rest of
             Inl e \<Rightarrow> Inl e
           | Inr out \<Rightarrow> Inr (if b then item # out else out)))"

definition check_low_items :: "pyval \<Rightarrow> state \<Rightarrow> (exn + string list) \<times> state" where
  "check_low_items threshold st = (low_items threshold (stock_data st), st)"

subsection \<open>The \<^verbatim>\<open>json\<close> module\<close>

text \<open>
  What \<^verbatim>\<open>json.load\<close> returns: a scalar, a list or an object.
\<close>

datatype json = JScalar pyval | JList "json list" | JDict "(string \<times> json) list"

text \<open>The stock table as a decoded JSON object.\<close>

definition table_json :: "table \<Rightarrow> json" where
  "table_json t = JDict (map (\<lambda>(k, v). (k, JScalar v)) t)"

text \<open>
  The \<^verbatim>\<open>json\<close> module is not part of this program. It is modelled on the documents
  of the data model: an object whose keys are strings and whose values are integers.
  On these, \<^verbatim>\<open>json.dump(..., indent=4)\<close> and \<^verbatim>\<open>json.load\<close> are written out below. What
  they do with any other table and any other text is left to two parameters.

  Characters are handled by their codes. \<^verbatim>\<open>json.dump\<close> escapes by default every
  character outside the printable ASCII range, and the quote and the backslash.
\<close>

record json_module =
  dump_other :: "table \<Rightarrow> string"
  load_other :: "string \<Rightarrow> json option"













text \<open>
  Reading: one pass over the text, character by character. The scanner accepts
  optional white space, \<^verbatim>\<open>{\<close>, entries \<^verbatim>\<open>"key": integer\<close> separated by commas, \<^verbatim>\<open>}\<close> and
  optional white space. A key may hold any character from code 32 on, and the
  escapes \<^verbatim>\<open>\" \\ \/ \b \f \n \r \t\<close> and \<^verbatim>\<open>\u00XX\<close>. An integer is \<^verbatim>\<open>0\<close> or starts with a
  digit from 1 to 9, after an optional minus sign. Whatever else it meets (a
  fraction or an exponent, a nested value, a key given twice, a character escape
  beyond \<^verbatim>\<open>\u00ff\<close>, a malformed text) ends in \<open>Unknown\<close>: the text is not of the form
  modelled, and \<open>load_other\<close> decides.
\<close>

type_synonym entries = "(string \<times> int) list"

datatype scan =
    Start
  | Opened
  | InKey entries string
  | InEscape entries string
  | InHex entries string "nat list"
  | AfterKey entries string
  | BeforeValue entries string
  | AfterMinus entries string
  | InZero entries string
  | InDigits entries string bool nat
  | AfterValue entries
  | AfterComma entries
  | Closed entries
  | Unknown

text \<open>White space is the space, the tab, the line feed and the carriage return.\<close>

definition is_ws :: "nat \<Rightarrow> bool" where
  "is_ws n = (n = 32 \<or> n = 9 \<or> n = 10 \<or> n = 13)"

definition hex_value :: "nat \<Rightarrow> nat option" where
  "hex_value n =
     (if 48 \<le> n \<and> n \<le> 57 then Some (n - 48)
      else if 97 \<le> n \<and> n \<le> 102 then Some (n - 87)
      else if 65 \<le> n \<and> n \<le> 70 then Some (n - 55)
      else None)"

definition unescape :: "nat \<Rightarrow> nat option" where
  "unescape n =
     (if n = 34 then Some 34
      else if n = 92 then Some 92
      else if n = 47 then Some 47
      else if n = 98 then Some 8
      else if n = 102 then Some 12
      else if n = 110 then Some 10
      else if n = 114 then Some 13
      else if n = 116 then Some 9
      else None)"

text \<open>After a value: white space, a comma (44) or the closing brace (125).\<close>

definition end_value :: "entries \<Rightarrow> nat \<Rightarrow> scan" where
  "end_value es n =
     (if is_ws n then AfterValue es
      else if n = 44 then AfterComma es
      else if n = 125 then Closed es
      else Unknown)"

fun step :: "scan \<Rightarrow> char \<Rightarrow> scan" where
  "step Start c =
     (let n = of_char c in
      if is_ws n then Start else if n = 123 then Opened else Unknown)"
| "step Opened c =
     (let n = of_char c in
      if is_ws n then Opened
      else if n = 34 then InKey [] []
      else if n = 125 then Closed []
      else Unknown)"
| "step (InKey es k) c =
     (let n = (of_char c :: nat) in
      if n = 34 then (if k \<in> set (map fst es) then Unknown else AfterKey es k)
      else if n = 92 then InEscape es k
      else if n < 32 then Unknown
      else InKey es (k @ [c]))"
| "step (InEscape es k) c =
     (let n = of_char c in
      if n = 117 then InHex es k []
      else (case unescape n of
              Some d \<Rightarrow> InKey es (k @ [char_of d])
            | None \<Rightarrow> Unknown))"
| "step (InHex es k hs) c =
     (case hex_value (of_char c) of
        None \<Rightarrow> Unknown
      | Some h \<Rightarrow>
          if length hs < 3 then InHex es k (hs @ [h])
          else (let v = foldl (\<lambda>a d. 16 * a + d) 0 (hs @ [h]) in
                if v < 256 then InKey es (k @ [char_of v]) else Unknown))"
| "step (AfterKey es k) c =
     (let n = of_char c in
      if is_ws n then AfterKey es k
      else if n = 58 then BeforeValue es k
      else Unknown)"
| "step (BeforeValue es k) c =
     (let n = of_char c in
      if is_ws n then BeforeValue es k
      else if n = 45 then AfterMinus es k
      else if n = 48 then InZero es k
      else if 49 \<le> n \<and> n \<le> 57 then InDigits es k False (n - 48)
      else Unknown)"
| "step (AfterMinus es k) c =
     (let n = of_char c in
      if n = 48 then InZero es k
      else if 49 \<le> n \<and> n \<le> 57 then InDigits es k True (n - 48)
      else Unknown)"
| "step (InZero es k) c = end_value (es @ [(k, 0)]) (of_char c)"
| "step (InDigits es k neg m) c =
     (let n = of_char c in
      if 48 \<le> n \<and> n \<le> 57 then InDigits es k neg (10 * m + (n - 48))
      else end_value (es @ [(k, if neg then - int m else int m)]) n)"
| "step (AfterValue es) c = end_value es (of_char c)"
| "step (AfterComma es) c =
     (let n = of_char c in
      if is_ws n then AfterComma es
      else if n = 34 then InKey es []
      else Unknown)"
| "step (Closed es) c = (if is_ws (of_char c) then Closed es else Unknown)"
| "step Unknown c = Unknown"

definition scan_object :: "string \<Rightarrow> entries option" where
  "scan_object text =
     (case foldl step Start text of
        Closed es \<Rightarrow> Some es
      | _ \<Rightarrow> None)"

text \<open>\<open>None\<close> stands for \<^verbatim>\<open>JSONDecodeError\<close>.\<close>

definition json_load :: "json_module \<Rightarrow> string \<Rightarrow> json option" where
  "json_load J text =
     (case scan_object text of
        Some es \<Rightarrow> Some (table_json (int_table es))
      | None \<Rightarrow> load_other J text)"

subsection \<open>Files\<close>

text \<open>Before it looks at the file system, \<^verbatim>\<open>open\<close> refuses the empty path with
  \<^verbatim>\<open>FileNotFoundError\<close> and a path that holds a NUL character with \<^verbatim>\<open>ValueError\<close>.\<close>

definition path_error :: "string \<Rightarrow> exn option" where
  "path_error file =
     (if file = [] then Some FileNotFoundError
      else if list_ex (\<lambda>c. of_char c = (0::nat)) file then Some ValueError
      else None)"

text \<open>\<^verbatim>\<open>open(file, "r", encoding="utf-8")\<close> and the \<^verbatim>\<open>read\<close> that \<^verbatim>\<open>json.load\<close> makes.\<close>

definition open_r :: "(string \<Rightarrow> node option) \<Rightarrow> string \<Rightarrow> exn + content" where
  "open_r fs file =
     (case path_error file of
        Some e \<Rightarrow> Inl e
      | None \<Rightarrow>
          (case fs file of
             None \<Rightarrow> Inl FileNotFoundError
           | Some Directory \<Rightarrow> Inl IsADirectoryError
           | Some (Refused r w) \<Rightarrow> Inl r
           | Some (RegularFile deny_r deny_w c) \<Rightarrow>
               (case deny_r of Some e \<Rightarrow> Inl e | None \<Rightarrow> Inr c)))"

definition read_text :: "content \<Rightarrow> exn + string" where
  "read_text c = (case c of Text s \<Rightarrow> Inr s | Undecodable \<Rightarrow> Inl UnicodeDecodeError)"




subsection \<open>\<^verbatim>\<open>load_data\<close> and \<^verbatim>\<open>save_data\<close>\<close>

text \<open>The body of the \<^verbatim>\<open>try\<close> block of \<^verbatim>\<open>load_data\<close>, and its two \<^verbatim>\<open>except\<close> clauses:
  \<^verbatim>\<open>FileNotFoundError\<close> and \<^verbatim>\<open>JSONDecodeError\<close> give the empty mapping, any other
  exception reaches the caller.\<close>

definition load_data_try :: "json_module \<Rightarrow> string \<Rightarrow> state \<Rightarrow> (exn + json) \<times> state" where
  "load_data_try J file st =
     (case open_r (files st) file of
        Inl e \<Rightarrow> (Inl e, st)
      | Inr c \<Rightarrow>
          (case read_text c of
             Inl e \<Rightarrow> (Inl e, st)
           | Inr text \<Rightarrow>
               (case json_load J text of
                  None \<Rightarrow> (Inl JSONDecodeError, st)
                | Some data \<Rightarrow>
                    (Inr data,
                     logging INFO ''Inventory data loaded successfully from %s''
                       [Val (PyStr file)] st))))"

definition load_data :: "json_module \<Rightarrow> string \<Rightarrow> state \<Rightarrow> (exn + json) \<times> state" where
  "load_data J file st =
     (case load_data_try J file st of
        (Inl e, st') \<Rightarrow>
          (if e = FileNotFoundError then
             (Inr (JDict []),
              logging WARNING ''File %s not found. Starting with an empty inventory.''
                [Val (PyStr file)] st')
           else if e = JSONDecodeError then
             (Inr (JDict []),
              logging ERROR ''Error decoding JSON file %s: %s''
                [Val (PyStr file), Exc e] st')
           else (Inl e, st'))
      | (Inr data, st') \<Rightarrow> (Inr data, st'))"


subsection \<open>Sequences of calls\<close>

text \<open>A caller that issues \<^verbatim>\<open>add_item\<close> and \<^verbatim>\<open>remove_item\<close> calls one after the other;
  an exception that reaches it ends the sequence.\<close>

datatype call =
    AddItem pyval pyval "sink_entry list option"
  | RemoveItem pyval pyval

fun do_call :: "call \<Rightarrow> state \<Rightarrow> (exn + unit) \<times> state" where
  "do_call (AddItem item qty logs) st =
     (case add_item item qty logs st of (r, logs', st') \<Rightarrow> (r, st'))"
| "do_call (RemoveItem item qty) st = remove_item item qty st"

fun run :: "call list \<Rightarrow> state \<Rightarrow> (exn + unit) \<times> state" where
  "run [] st = (Inr (), st)"
| "run (c # cs) st =
     (case do_call c st of
        (Inl e, st') \<Rightarrow> (Inl e, st')
      | (Inr u, st') \<Rightarrow> run cs st')"

text \<open>The state at process start: an empty table, nothing logged.\<close>

definition init :: "(string \<Rightarrow> node option) \<Rightarrow> state" where
  "init fs = \<lparr>stock_data = [], log = [], files = fs\<rparr>"

text \<open>\<^verbatim>\<open>0 < v\<close> holds for the quantity \<open>v\<close>.\<close>

definition strictly_positive :: "pyval \<Rightarrow> bool" where
  "strictly_positive v = (py_lt (PyInt 0) v = Inr True)"

definition all_positive :: "table \<Rightarrow> bool" where
  "all_positive t = list_all (\<lambda>(k, v). strictly_positive v) t"

text \<open>The integer that an instance of \<^verbatim>\<open>int\<close> denotes.\<close>

fun int_value :: "pyval \<Rightarrow> int option" where
  "int_value (PyInt n) = Some n"
| "int_value (PyBool b) = Some (if b then 1 else 0)"
| "int_value v = None"

text \<open>A run of \<^verbatim>\<open>add_item(item, q)\<close> calls for one item, without a \<^verbatim>\<open>logs\<close> list.\<close>

definition add_calls :: "string \<Rightarrow> int list \<Rightarrow> call list" where
  "add_calls k qs = map (\<lambda>q. AddItem (PyStr k) (PyInt q) None) qs"

text \<open>Calls that add a strictly positive integer, or remove an integer.\<close>

fun positive_call :: "call \<Rightarrow> bool" where
  "positive_call (AddItem item qty logs) =
     (case int_value qty of Some n \<Rightarrow> 0 < n | None \<Rightarrow> False)"
| "positive_call (RemoveItem item qty) =
     (case int_value qty of Some n \<Rightarrow> True | None \<Rightarrow> False)"

text \<open>A table whose quantities are all strictly positive values of type \<^verbatim>\<open>int\<close>.\<close>

definition positive_int_table :: "table \<Rightarrow> bool" where
  "positive_int_table t = list_all (\<lambda>(k, v). case v of PyInt n \<Rightarrow> 0 < n | _ \<Rightarrow> False) t"

text \<open>The five calls that \<^verbatim>\<open>main\<close> makes before it reads anything back.\<close>

definition main_calls :: "call list" where
  "main_calls =
     [AddItem (PyStr ''apple'') (PyInt 10) (Some []),
      AddItem (PyStr ''banana'') (PyInt 2) (Some []),
      AddItem (PyStr ''orange'') (PyInt 1) (Some []),
      RemoveItem (PyStr ''apple'') (PyInt 3),
      RemoveItem (PyStr ''mango'') (PyInt 1)]"

subsection \<open>States used in the examples\<close>

text \<open>The table that the first three calls of \<^verbatim>\<open>main\<close> build.\<close>

definition shelf :: state where
  "shelf =
     \<lparr>stock_data = [(''apple'', PyInt 10), (''banana'', PyInt 2), (''orange'', PyInt 1)],
      log = [], files = Map.empty\<rparr>"

text \<open>The same table where the path \<^verbatim>\<open>inventory.json\<close> names a directory.\<close>

definition blocked :: state where
  "blocked = shelf\<lparr>files := [''inventory.json'' \<mapsto> Directory]\<rparr>"


text \<open>The same table where \<^verbatim>\<open>inventory.json\<close> is a file whose bytes are not UTF-8.\<close>

definition binary :: state where
  "binary = shelf\<lparr>files := [''inventory.json'' \<mapsto> RegularFile None None Undecodable]\<rparr>"

text \<open>A stock of \<open>2^1024\<close> apples, as \<^verbatim>\<open>add_item("apple", 2**1024)\<close> leaves it.\<close>

definition vault :: state where
  "vault = \<lparr>stock_data = [(''apple'', PyInt (2 ^ 1024))], log = [], files = Map.empty\<rparr>"



section \<open>Properties\<close>

subsection \<open>The table as a map\<close>

lemma map_of_dict_set: "map_of (dict_set t k v) = (map_of t)(k \<mapsto> v)"
  by (induction t) (auto simp: fun_eq_iff)

lemma map_of_dict_del: "map_of (dict_del t k) = (map_of t)(k := None)"
  by (induction t) (auto simp: fun_eq_iff dict_del_def)

lemma dict_del_dict_set: "dict_del (dict_set t k v) k = dict_del t k"
  by (induction t) (auto simp: dict_del_def)

lemma keys_dom: "set (keys t) = dom (map_of t)"
  by (simp add: keys_def dom_map_of_conv_image_fst)

lemma keys_dict_del: "set (keys (dict_del t k)) = set (keys t) - {k}"
  by (simp add: keys_dom map_of_dict_del)

lemma keys_dict_set: "set (keys (dict_set t k v)) = insert k (set (keys t))"
  by (simp add: keys_dom map_of_dict_set)

subsection \<open>Calls with integer quantities\<close>

lemma add_item_int:
  assumes "int_value qty = Some q"
  shows "add_item (PyStr k) qty logs st =
     (case dict_get (stock_data st) (PyStr k) of
        None \<Rightarrow>
          (Inr (), map_option (\<lambda>l. l @ [Added qty (PyStr k)]) logs,
           st\<lparr>stock_data := dict_set (stock_data st) k (PyInt q),
              log := log st @ [(INFO, ''Added %d of %s to inventory.'',
                                [Val qty, Val (PyStr k)])]\<rparr>)
      | Some v \<Rightarrow>
          (case py_add v qty of
             Inl e \<Rightarrow> (Inl e, logs, st)
           | Inr v' \<Rightarrow>
          (Inr (), map_option (\<lambda>l. l @ [Added qty (PyStr k)]) logs,
           st\<lparr>stock_data := dict_set (stock_data st) k v',
              log := log st @ [(INFO, ''Added %d of %s to inventory.'',
                                [Val qty, Val (PyStr k)])]\<rparr>)))"
proof -
  have ok: "isinstance_int qty" using assms by (cases qty) auto
  have zero: "py_add (PyInt 0) qty = Inr (PyInt q)"
    using assms by (cases qty) (auto simp: py_add_def)
  show ?thesis
    using ok zero by (simp add: add_item_def logging_def split: option.splits sum.splits)
qed

lemma py_add_int: "int_value qty = Some q \<Longrightarrow> py_add (PyInt m) qty = Inr (PyInt (m + q))"
  by (cases qty) (auto simp: py_add_def)

lemma remove_item_int:
  assumes "dict_get (stock_data st) (PyStr k) = Some (PyInt n)"
    and "int_value qty = Some q"
  shows "remove_item (PyStr k) qty st =
     (if n \<le> q then
        (Inr (),
         st\<lparr>stock_data := dict_del (stock_data st) k,
            log := log st @ [(INFO, ''Removed %s completely from inventory.'',
                              [Val (PyStr k)])]\<rparr>)
      else
        (Inr (),
         st\<lparr>stock_data := dict_set (stock_data st) k (PyInt (n - q)),
            log := log st @ [(INFO, ''Removed %d of %s from inventory.'',
                              [Val qty, Val (PyStr k)])]\<rparr>))"
proof -
  have sub: "py_sub (PyInt n) qty = Inr (PyInt (n - q))"
    using assms(2) by (cases qty) (auto simp: py_sub_def)
  have le: "py_le (PyInt (n - q)) (PyInt 0) = Inr (n \<le> q)"
    by (simp add: py_le_def)
  show ?thesis
    using assms(1)
    by (simp add: remove_item_def remove_item_try_def logging_def dict_contains_def
        sub le Let_def dict_del_dict_set)
qed

subsection \<open>Removing from an item in stock\<close>

text \<open>
  Claim C3. For an item in the table with integer quantity \<open>n\<close> and an integer \<open>qty\<close> of
  value \<open>q\<close>: when \<open>q \<ge> n\<close>, \<^verbatim>\<open>remove_item\<close> deletes the key, so that \<^verbatim>\<open>get_qty\<close> gives
  \<^verbatim>\<open>None\<close> and the key is no longer among the keys; otherwise the quantity becomes
  \<open>n - q\<close> and the key stays. In both cases the call returns normally and logs one
  informational record.
\<close>

theorem remove_item_present:
  assumes "dict_get (stock_data st) (PyStr k) = Some (PyInt n)"
    and "int_value qty = Some q"
  shows "remove_item (PyStr k) qty st =
     (if n \<le> q then
        (Inr (),
         st\<lparr>stock_data := dict_del (stock_data st) k,
            log := log st @ [(INFO, ''Removed %s completely from inventory.'',
                              [Val (PyStr k)])]\<rparr>)
      else
        (Inr (),
         st\<lparr>stock_data := dict_set (stock_data st) k (PyInt (n - q)),
            log := log st @ [(INFO, ''Removed %d of %s from inventory.'',
                              [Val qty, Val (PyStr k)])]\<rparr>))
   \<and> (let st' = snd (remove_item (PyStr k) qty st) in
        if n \<le> q
        then get_qty (PyStr k) st' = PyNone \<and> k \<notin> set (keys (stock_data st'))
        else get_qty (PyStr k) st' = PyInt (n - q) \<and> k \<in> set (keys (stock_data st')))"
  unfolding remove_item_int [OF assms]
  by (simp add: get_qty_def map_of_dict_del map_of_dict_set keys_dict_del
      keys_dict_set Let_def)

theorem remove_item_present_witness:
  "dict_get (stock_data shelf) (PyStr ''apple'') = Some (PyInt 10)
   \<and> int_value (PyInt 3) = Some 3
   \<and> get_qty (PyStr ''apple'') (snd (remove_item (PyStr ''apple'') (PyInt 3) shelf))
       = PyInt 7
   \<and> stock_data (snd (remove_item (PyStr ''apple'') (PyInt 3) shelf))
       = [(''apple'', PyInt 7), (''banana'', PyInt 2), (''orange'', PyInt 1)]
   \<and> int_value (PyInt 12) = Some 12
   \<and> get_qty (PyStr ''apple'') (snd (remove_item (PyStr ''apple'') (PyInt 12) shelf))
       = PyNone
   \<and> stock_data (snd (remove_item (PyStr ''apple'') (PyInt 12) shelf))
       = [(''banana'', PyInt 2), (''orange'', PyInt 1)]"
proof -
  have h: "dict_get (stock_data shelf) (PyStr ''apple'') = Some (PyInt 10)"
    by (simp add: shelf_def)
  have h3: "int_value (PyInt 3) = Some 3" and h12: "int_value (PyInt 12) = Some 12"
    by simp_all
  show ?thesis
    using h remove_item_present [OF h h3] remove_item_present [OF h h12]
    by (simp add: shelf_def dict_del_def get_qty_def)
qed

subsection \<open>Arguments of the wrong type in \<^verbatim>\<open>add_item\<close>\<close>

text \<open>
  Claim C4. When \<^verbatim>\<open>item\<close> is not a \<^verbatim>\<open>str\<close> or \<^verbatim>\<open>qty\<close> is not an \<^verbatim>\<open>int\<close>, \<^verbatim>\<open>add_item\<close>
  returns normally, leaves the stock table (and the caller's \<^verbatim>\<open>logs\<close> list) as it
  was, and logs exactly one record, a warning.
\<close>

theorem add_item_invalid_types:
  assumes "\<not> isinstance_str item \<or> \<not> isinstance_int qty"
  shows "add_item item qty logs st =
     (Inr (), logs,
      st\<lparr>log := log st @ [(WARNING, ''Invalid data types for add_item: item=%s, qty=%s'',
                             [Val item, Val qty])]\<rparr>)
   \<and> stock_data (snd (snd (add_item item qty logs st))) = stock_data st"
  using assms by (simp add: add_item_def logging_def)

theorem add_item_invalid_types_witness:
  "isinstance_str (PyInt 5) = False
   \<and> add_item (PyInt 5) (PyInt 3) None shelf =
       (Inr (), None,
        shelf\<lparr>log := [(WARNING, ''Invalid data types for add_item: item=%s, qty=%s'',
                         [Val (PyInt 5), Val (PyInt 3)])]\<rparr>)
   \<and> isinstance_int (PyFloat (Finite (5 / 2))) = False
   \<and> stock_data (snd (snd (add_item (PyStr ''apple'') (PyFloat (Finite (5 / 2))) None shelf)))
       = [(''apple'', PyInt 10), (''banana'', PyInt 2), (''orange'', PyInt 1)]"
proof -
  have h1: "\<not> isinstance_str (PyInt 5) \<or> \<not> isinstance_int (PyInt 3)"
    by simp
  have h2: "\<not> isinstance_str (PyStr ''apple'') \<or> \<not> isinstance_int (PyFloat (Finite (5 / 2)))"
    by simp
  show ?thesis
    using h1 h2 add_item_invalid_types [OF h1, of None shelf]
      add_item_invalid_types [OF h2, of None shelf]
    by (simp add: shelf_def)
qed

subsection \<open>Removing an item that is not in stock\<close>

text \<open>
  Claim C5. When \<^verbatim>\<open>item\<close> is not a key of the stock table, \<^verbatim>\<open>remove_item\<close> returns
  normally for every \<^verbatim>\<open>qty\<close>, leaves the stock table as it was, and logs exactly one
  record, a warning.
\<close>

theorem remove_item_absent:
  assumes "\<not> dict_contains (stock_data st) item"
  shows "remove_item item qty st =
     (Inr (),
      st\<lparr>log := log st @ [(WARNING, ''Attempted to remove non-existent item: %s'',
                             [Val item])]\<rparr>)
   \<and> stock_data (snd (remove_item item qty st)) = stock_data st"
  using assms by (simp add: remove_item_def remove_item_try_def logging_def)

theorem remove_item_absent_witness:
  "\<not> dict_contains (stock_data shelf) (PyStr ''mango'')
   \<and> remove_item (PyStr ''mango'') (PyInt 1) shelf =
       (Inr (),
        shelf\<lparr>log := [(WARNING, ''Attempted to remove non-existent item: %s'',
                         [Val (PyStr ''mango'')])]\<rparr>)
   \<and> stock_data (snd (remove_item (PyStr ''mango'') (PyStr ''many'') shelf))
       = [(''apple'', PyInt 10), (''banana'', PyInt 2), (''orange'', PyInt 1)]"
proof -
  have h: "\<not> dict_contains (stock_data shelf) (PyStr ''mango'')"
    by (simp add: shelf_def dict_contains_def)
  show ?thesis
    using h remove_item_absent [OF h, of "PyInt 1"] remove_item_absent [OF h, of "PyStr ''many''"]
    by (simp add: shelf_def)
qed

subsection \<open>A \<^verbatim>\<open>bool\<close> as quantity\<close>

text \<open>
  Claim C10. \<^verbatim>\<open>True\<close> passes the type check of \<^verbatim>\<open>add_item\<close>: for an item mapped to
  the integer \<open>n\<close>, \<^verbatim>\<open>add_item(item, True)\<close> logs an informational record and no
  warning, and leaves the item mapped to \<open>n + 1\<close>.
\<close>

theorem add_item_bool:
  assumes "dict_get (stock_data st) (PyStr k) = Some (PyInt n)"
  shows "isinstance_int (PyBool True)
   \<and> add_item (PyStr k) (PyBool True) logs st =
       (Inr (), map_option (\<lambda>l. l @ [Added (PyBool True) (PyStr k)]) logs,
        st\<lparr>stock_data := dict_set (stock_data st) k (PyInt (n + 1)),
           log := log st @ [(INFO, ''Added %d of %s to inventory.'',
                             [Val (PyBool True), Val (PyStr k)])]\<rparr>)
   \<and> get_qty (PyStr k) (snd (snd (add_item (PyStr k) (PyBool True) logs st))) = PyInt (n + 1)"
  using assms by (simp add: add_item_def logging_def py_add_def get_qty_def map_of_dict_set)

theorem add_item_bool_witness:
  "dict_get (stock_data shelf) (PyStr ''banana'') = Some (PyInt 2)
   \<and> add_item (PyStr ''banana'') (PyBool True) None shelf =
       (Inr (), None,
        shelf\<lparr>stock_data := [(''apple'', PyInt 10), (''banana'', PyInt 3), (''orange'', PyInt 1)],
           log := [(INFO, ''Added %d of %s to inventory.'',
                             [Val (PyBool True), Val (PyStr ''banana'')])]\<rparr>)"
proof -
  have h: "dict_get (stock_data shelf) (PyStr ''banana'') = Some (PyInt 2)"
    by (simp add: shelf_def)
  show ?thesis
    using h add_item_bool [OF h, of None] by (simp add: shelf_def)
qed

subsection \<open>Items below a threshold\<close>

lemma low_items_int_table:
  "int_value threshold = Some th \<Longrightarrow>
   low_items threshold (int_table kvs) = Inr (map fst (filter (\<lambda>(k, n). n < th) kvs))"
proof (induction kvs)
  case Nil
  then show ?case by (simp add: int_table_def)
next
  case (Cons kv kvs)
  obtain k n where kv: "kv = (k, n)" by (cases kv)
  have "py_lt (PyInt n) threshold = Inr (n < th)"
    using Cons.prems by (cases threshold) (auto simp: py_lt_def)
  with Cons kv show ?case
    by (simp add: int_table_def)
qed

text \<open>
  Claim C6. On a table of integer quantities and for an integer threshold,
  \<^verbatim>\<open>check_low_items\<close> returns the items whose quantity is strictly below the threshold,
  in table order, and leaves the state as it was. Hence it returns every item when
  all quantities are below the threshold, and none when the threshold is at most
  every quantity.
\<close>

theorem check_low_items_exact:
  assumes "stock_data st = int_table kvs"
    and "int_value threshold = Some th"
  shows "check_low_items threshold st =
           (Inr (map fst (filter (\<lambda>(k, n). n < th) kvs)), st)
   \<and> ((\<forall>(k, n) \<in> set kvs. n < th) \<longrightarrow>
         fst (check_low_items threshold st) = Inr (map fst kvs))
   \<and> ((\<forall>(k, n) \<in> set kvs. th \<le> n) \<longrightarrow>
         fst (check_low_items threshold st) = Inr [])"
proof -
  have eq: "check_low_items threshold st =
           (Inr (map fst (filter (\<lambda>(k, n). n < th) kvs)), st)"
    using assms by (simp add: check_low_items_def low_items_int_table)
  have all: "(\<forall>(k, n) \<in> set kvs. n < th) \<Longrightarrow> filter (\<lambda>(k, n). n < th) kvs = kvs"
    by (induction kvs) auto
  have none: "(\<forall>(k, n) \<in> set kvs. th \<le> n) \<Longrightarrow> filter (\<lambda>(k, n). n < th) kvs = []"
    by (induction kvs) auto
  show ?thesis
    using all none by (auto simp: eq)
qed

theorem check_low_items_exact_witness:
  "stock_data shelf = int_table [(''apple'', 10), (''banana'', 2), (''orange'', 1)]
   \<and> int_value (PyInt 5) = Some 5
   \<and> check_low_items (PyInt 5) shelf = (Inr [''banana'', ''orange''], shelf)
   \<and> fst (check_low_items (PyInt 11) shelf) = Inr [''apple'', ''banana'', ''orange'']
   \<and> fst (check_low_items (PyInt 1) shelf) = Inr []"
proof -
  have t: "stock_data shelf = int_table [(''apple'', 10), (''banana'', 2), (''orange'', 1)]"
    by (simp add: shelf_def int_table_def)
  have i5: "int_value (PyInt 5) = Some 5" and i11: "int_value (PyInt 11) = Some 11"
    and i1: "int_value (PyInt 1) = Some 1"
    by simp_all
  show ?thesis
    using t check_low_items_exact [OF t i5] check_low_items_exact [OF t i11]
      check_low_items_exact [OF t i1]
    by simp
qed

subsection \<open>Repeated additions to one item\<close>

lemma add_calls_present:
  "dict_get (stock_data st) (PyStr k) = Some (PyInt m) \<Longrightarrow>
   fst (run (add_calls k qs) st) = Inr ()
   \<and> get_qty (PyStr k) (snd (run (add_calls k qs) st)) = PyInt (m + sum_list qs)"
proof (induction qs arbitrary: st m)
  case Nil
  then show ?case by (simp add: add_calls_def get_qty_def)
next
  case (Cons q qs)
  let ?st1 = "st\<lparr>stock_data := dict_set (stock_data st) k (PyInt (m + q)),
              log := log st @ [(INFO, ''Added %d of %s to inventory.'',
                                [Val (PyInt q), Val (PyStr k)])]\<rparr>"
  have step: "do_call (AddItem (PyStr k) (PyInt q) None) st = (Inr (), ?st1)"
    using Cons.prems by (simp add: add_item_int [of "PyInt q" q] py_add_int)
  have "dict_get (stock_data ?st1) (PyStr k) = Some (PyInt (m + q))"
    by (simp add: map_of_dict_set)
  from Cons.IH [OF this] step show ?case
    by (simp add: add_calls_def add.assoc)
qed

text \<open>
  Claim C2. Starting from a table that does not hold the item, after the calls
  \<^verbatim>\<open>add_item(item, q)\<close> for the integers \<open>q\<close> of a non-empty list, none of which raises,
  \<^verbatim>\<open>get_qty(item)\<close> returns the sum of the list. The sign of the quantities plays no
  role, so the statement covers the positive ones of the claim.
\<close>

theorem add_item_cumulative:
  assumes "dict_get (stock_data st) (PyStr k) = None"
    and "qs \<noteq> []"
  shows "fst (run (add_calls k qs) st) = Inr ()
   \<and> get_qty (PyStr k) (snd (run (add_calls k qs) st)) = PyInt (sum_list qs)"
proof -
  obtain q qs' where qs: "qs = q # qs'"
    using assms(2) by (cases qs) auto
  let ?st1 = "st\<lparr>stock_data := dict_set (stock_data st) k (PyInt q),
              log := log st @ [(INFO, ''Added %d of %s to inventory.'',
                                [Val (PyInt q), Val (PyStr k)])]\<rparr>"
  have step: "do_call (AddItem (PyStr k) (PyInt q) None) st = (Inr (), ?st1)"
    using assms(1) by (simp add: add_item_int [of "PyInt q" q])
  have "dict_get (stock_data ?st1) (PyStr k) = Some (PyInt q)"
    by (simp add: map_of_dict_set)
  from add_calls_present [OF this, of qs'] step show ?thesis
    by (simp add: qs add_calls_def)
qed

theorem add_item_cumulative_witness:
  "dict_get (stock_data shelf) (PyStr ''mango'') = None
   \<and> [4, 5, 6] \<noteq> ([] :: int list)
   \<and> get_qty (PyStr ''mango'') (snd (run (add_calls ''mango'' [4, 5, 6]) shelf)) = PyInt 15"
proof -
  have h: "dict_get (stock_data shelf) (PyStr ''mango'') = None"
    by (simp add: shelf_def)
  have n: "[4, 5, 6] \<noteq> ([] :: int list)" by simp
  show ?thesis
    using h add_item_cumulative [OF h n] by simp
qed

subsection \<open>Quantities in stock are positive\<close>

lemma pit_Cons: "positive_int_table ((k, v) # t) \<longleftrightarrow> (\<exists>n. v = PyInt n \<and> 0 < n) \<and> positive_int_table t"
  by (auto simp: positive_int_table_def split: pyval.splits)

lemma pit_Nil: "positive_int_table []"
  by (simp add: positive_int_table_def)

lemma pit_dict_set:
  "positive_int_table t \<Longrightarrow> 0 < n \<Longrightarrow> positive_int_table (dict_set t k (PyInt n))"
  by (induction t) (auto simp: pit_Cons pit_Nil)

lemma pit_dict_del: "positive_int_table t \<Longrightarrow> positive_int_table (dict_del t k)"
  by (induction t) (auto simp: pit_Cons pit_Nil dict_del_def)

lemma pit_lookup:
  "positive_int_table t \<Longrightarrow> map_of t k = Some v \<Longrightarrow> \<exists>n. v = PyInt n \<and> 0 < n"
  by (induction t) (auto simp: pit_Cons split: if_splits)

lemma pit_all_positive: "positive_int_table t \<Longrightarrow> all_positive t"
  by (induction t)
     (auto simp: pit_Cons all_positive_def strictly_positive_def py_lt_def)

lemma add_item_pit:
  assumes "positive_int_table (stock_data st)" and "int_value qty = Some q" and "0 < q"
  shows "\<exists>logs' st'. add_item item qty logs st = (Inr (), logs', st')
           \<and> positive_int_table (stock_data st')"
proof (cases "isinstance_str item")
  case False
  then show ?thesis using assms(1) by (simp add: add_item_def logging_def)
next
  case True
  then obtain k where item: "item = PyStr k" by (cases item) auto
  show ?thesis
  proof (cases "map_of (stock_data st) k")
    case None
    then show ?thesis
      using assms pit_dict_set [of "stock_data st" q k]
      by (simp add: item add_item_int [OF assms(2)])
  next
    case (Some v)
    then obtain m where v: "v = PyInt m" "0 < m"
      using pit_lookup [OF assms(1)] by blast
    then show ?thesis
      using assms Some pit_dict_set [of "stock_data st" "m + q" k]
      by (simp add: item add_item_int [OF assms(2)] py_add_int)
  qed
qed

lemma remove_item_pit:
  assumes "positive_int_table (stock_data st)" and "int_value qty = Some q"
  shows "\<exists>st'. remove_item item qty st = (Inr (), st')
           \<and> positive_int_table (stock_data st')"
proof (cases "dict_contains (stock_data st) item")
  case False
  then show ?thesis
    using assms(1) by (simp add: remove_item_def remove_item_try_def logging_def)
next
  case True
  then obtain k v where item: "item = PyStr k" and v: "map_of (stock_data st) k = Some v"
    by (cases item) (auto simp: dict_contains_def)
  then obtain n where n: "v = PyInt n" "0 < n"
    using pit_lookup [OF assms(1)] by blast
  have g: "dict_get (stock_data st) (PyStr k) = Some (PyInt n)"
    using v n by simp
  show ?thesis
    using assms(1) pit_dict_del [of "stock_data st" k]
      pit_dict_set [of "stock_data st" "n - q" k]
    by (simp add: item remove_item_int [OF g assms(2)])
qed

lemma run_pit:
  "list_all positive_call cs \<Longrightarrow> positive_int_table (stock_data st) \<Longrightarrow>
   \<exists>st'. run cs st = (Inr (), st') \<and> positive_int_table (stock_data st')"
proof (induction cs arbitrary: st)
  case Nil
  then show ?case by simp
next
  case (Cons c cs)
  have "\<exists>st1. do_call c st = (Inr (), st1) \<and> positive_int_table (stock_data st1)"
  proof (cases c)
    case (AddItem item qty logs)
    with Cons.prems(1) obtain q where "int_value qty = Some q" "0 < q"
      by (auto split: option.splits)
    from add_item_pit [OF Cons.prems(2) this, of item logs] show ?thesis
      by (auto simp: AddItem)
  next
    case (RemoveItem item qty)
    with Cons.prems(1) obtain q where "int_value qty = Some q"
      by (auto split: option.splits)
    from remove_item_pit [OF Cons.prems(2) this, of item] show ?thesis
      by (auto simp: RemoveItem)
  qed
  then obtain st1 where st1: "do_call c st = (Inr (), st1)"
    "positive_int_table (stock_data st1)" by blast
  from Cons.IH [OF _ st1(2)] Cons.prems(1) st1(1) show ?case
    by simp
qed

text \<open>
  Claim C1 as stated fails: \<^verbatim>\<open>add_item\<close> checks the type of \<^verbatim>\<open>qty\<close>, not its sign, and
  never deletes. From the empty table, \<^verbatim>\<open>add_item("apple", 0)\<close> leaves the key
  \<^verbatim>\<open>apple\<close> with quantity 0.
\<close>

theorem add_item_zero_counterexample:
  "stock_data (snd (run [AddItem (PyStr ''apple'') (PyInt 0) None] (init Map.empty)))
     = [(''apple'', PyInt 0)]
   \<and> \<not> all_positive
         (stock_data (snd (run [AddItem (PyStr ''apple'') (PyInt 0) None] (init Map.empty))))"
  by (simp add: add_item_def init_def logging_def py_add_def all_positive_def
      strictly_positive_def py_lt_def)

text \<open>
  Claim C1, amended. From the empty table, a sequence of \<^verbatim>\<open>add_item\<close> calls with
  strictly positive integer quantities and \<^verbatim>\<open>remove_item\<close> calls with integer
  quantities runs without an exception, and afterwards every key of the table has a
  strictly positive integer quantity.
\<close>

theorem positive_calls_keep_stock_positive:
  assumes "list_all positive_call cs"
  shows "fst (run cs (init fs)) = Inr ()
   \<and> positive_int_table (stock_data (snd (run cs (init fs))))
   \<and> all_positive (stock_data (snd (run cs (init fs))))"
proof -
  have "positive_int_table (stock_data (init fs))"
    by (simp add: init_def pit_Nil)
  from run_pit [OF assms this] show ?thesis
    by (auto simp: pit_all_positive)
qed

theorem positive_calls_keep_stock_positive_witness:
  "list_all positive_call main_calls
   \<and> stock_data (snd (run main_calls (init Map.empty)))
       = [(''apple'', PyInt 7), (''banana'', PyInt 2), (''orange'', PyInt 1)]
   \<and> all_positive (stock_data (snd (run main_calls (init Map.empty))))"
proof -
  have h: "list_all positive_call main_calls"
    by (simp add: main_calls_def)
  have t: "stock_data (snd (run main_calls (init Map.empty)))
       = [(''apple'', PyInt 7), (''banana'', PyInt 2), (''orange'', PyInt 1)]"
    by (simp add: main_calls_def init_def add_item_def remove_item_def remove_item_try_def
        logging_def py_add_def py_sub_def py_le_def dict_contains_def)
  show ?thesis
    using h t positive_calls_keep_stock_positive [OF h, of Map.empty] by simp
qed

subsection \<open>A quantity of the wrong type in \<^verbatim>\<open>remove_item\<close>\<close>

text \<open>
  A quantity that is not a number (\<^verbatim>\<open>None\<close> or a \<^verbatim>\<open>str\<close>): the decrement raises
  \<^verbatim>\<open>TypeError\<close> before anything is stored, the \<^verbatim>\<open>except\<close> clause logs it, and the table
  is as it was.
\<close>

lemma remove_item_type_mismatch:
  assumes "dict_get (stock_data st) (PyStr k) = Some v"
    and "as_number qty = None"
  shows "remove_item (PyStr k) qty st =
     (Inr (),
      st\<lparr>log := log st @ [(ERROR, ''Error removing item %s: %s'',
                             [Val (PyStr k), Exc TypeError])]\<rparr>)"
  using assms
  by (simp add: remove_item_def remove_item_try_def logging_def py_sub_def
      dict_contains_def split: option.splits)

text \<open>A \<^verbatim>\<open>float\<close> quantity makes Python convert the stored \<^verbatim>\<open>int\<close> to a \<^verbatim>\<open>float\<close>, which
  fails from \<open>2^1024\<close> on.\<close>

lemma bit_length_pow2: "bit_length (2 ^ k) = int k + 1"
proof (induction k)
  case 0
  show ?case by (simp add: bit_length.simps [of 1] bit_length.simps [of 0])
next
  case (Suc k)
  have "bit_length (2 ^ Suc k) = 1 + bit_length (2 ^ Suc k div 2)"
    by (subst bit_length.simps) simp
  with Suc show ?case by simp
qed

lemma floor_log2_pow2: "floor_log2 (2 ^ k) = int k"
proof -
  have q: "quotient_of ((2::rat) ^ k) = (2 ^ k, 1)"
    using quotient_of_int [of "2 ^ k"] by (simp add: Rat.of_int_def)
  have b1: "bit_length 1 = 1"
    using bit_length_pow2 [of 0] by simp
  show ?thesis
    by (simp add: floor_log2_def q bit_length_pow2 b1 pow2_def)
qed

lemma fl_round_pow2_overflow:
  assumes "972 \<le> j"
  shows "fl_round (2 ^ (52 + j)) = PosInf"
proof -
  have p: "max (floor_log2 \<bar>2 ^ (52 + j)\<bar> - 52) (- 1074) = int j"
    by (simp add: floor_log2_pow2)
  have d: "\<bar>(2::rat) ^ (52 + j)\<bar> / pow2 (int j) = 2 ^ 52"
    by (simp add: pow2_def power_add)
  have r: "round_half_even (2 ^ 52) = 2 ^ 52"
    by (simp add: round_half_even_def)
  have "(2::rat) ^ 1024 \<le> 2 ^ (52 + j)"
    using assms by (intro power_increasing) auto
  then have big: "pow2 1024 \<le> of_int (2 ^ 52) * pow2 (int j)"
    by (simp add: pow2_def power_add)
  have nz: "(2::rat) ^ (52 + j) \<noteq> 0" "(0::rat) < 2 ^ (52 + j)"
    by simp_all
  show ?thesis
    unfolding fl_round_def Let_def p d r using big nz
    by (simp only: if_True if_False)
qed

lemma float_of_int_overflow: "float_of_int (2 ^ 1024) = Inl OverflowError"
proof -
  have "fl_round (of_int (2 ^ (52 + 972))) = PosInf"
    using fl_round_pow2_overflow [of 972] by simp
  then show ?thesis
    by (simp add: float_of_int_def)
qed

lemma vault_sub:
  "py_sub (PyInt (2 ^ 1024)) (PyFloat (Finite (3 / 2))) = Inl OverflowError"
  by (simp add: py_sub_def float_op_def float_of_int_overflow [simplified])

text \<open>
  Claim C9 says that with a quantity of the wrong type any fault of \<^verbatim>\<open>remove_item\<close> is
  caught, logged as an error and kept from the caller. The code does not do that:
  with \<open>2^1024\<close> apples in stock, \<^verbatim>\<open>remove_item("apple", 1.5)\<close> raises \<^verbatim>\<open>OverflowError\<close>
  in the decrement, which \<^verbatim>\<open>except (KeyError, TypeError)\<close> does not catch. It reaches
  the caller, and nothing is logged.
\<close>

theorem remove_item_overflow_escapes:
  "remove_item (PyStr ''apple'') (PyFloat (Finite (3 / 2))) vault = (Inl OverflowError, vault)"
  by (simp add: remove_item_def remove_item_try_def vault_def dict_contains_def vault_sub [simplified])

subsection \<open>Reading back the JSON text of a table\<close>












subsection \<open>Saving and loading\<close>







text \<open>
  Claim C8 says that \<^verbatim>\<open>load_data\<close> never raises. The code does not do that: it
  catches \<^verbatim>\<open>FileNotFoundError\<close> and \<^verbatim>\<open>JSONDecodeError\<close> only. Where the path names a
  directory, \<^verbatim>\<open>open\<close> raises \<^verbatim>\<open>IsADirectoryError\<close>; where the file holds bytes that are
  not UTF-8, reading it raises \<^verbatim>\<open>UnicodeDecodeError\<close>. Both reach the caller, with
  nothing logged.
\<close>

theorem load_data_uncaught:
  "load_data J ''inventory.json'' blocked = (Inl IsADirectoryError, blocked)
   \<and> load_data J ''inventory.json'' binary = (Inl UnicodeDecodeError, binary)"
  by (simp add: load_data_def load_data_try_def open_r_def path_error_def read_text_def
      blocked_def binary_def)

text \<open>The two cases that \<^verbatim>\<open>load_data\<close> does catch: no file at the path, and a file
  whose text is not valid JSON.\<close>

lemma load_data_missing:
  assumes "open_r (files st) file = Inl FileNotFoundError"
  shows "load_data J file st =
     (Inr (JDict []),
      st\<lparr>log := log st @ [(WARNING, ''File %s not found. Starting with an empty inventory.'',
                             [Val (PyStr file)])]\<rparr>)"
  using assms by (simp add: load_data_def load_data_try_def logging_def)

lemma load_data_invalid:
  assumes "open_r (files st) file = Inr (Text text)" and "json_load J text = None"
  shows "load_data J file st =
     (Inr (JDict []),
      st\<lparr>log := log st @ [(ERROR, ''Error decoding JSON file %s: %s'',
                             [Val (PyStr file), Exc JSONDecodeError])]\<rparr>)"
  using assms by (simp add: load_data_def load_data_try_def read_text_def logging_def)

end
